theory Spec2Isabelle
  imports Complex_Main "HOL-Library.Char_ord" "HOL-Library.List_Lexorder"
begin

section \<open>Floating-point values\<close>

text \<open>
  The program computes with Python and pandas floats. A finite float is modelled by the
  exact rational it denotes, and arithmetic on finite values is exact: rounding to a double,
  overflow and the sign of zero are not modelled, so nothing below speaks about the last
  digit of a computed float. The special values are kept, because \<open>float\<close> can read them
  and because pandas produces NaN for the maximum of an empty column and for
  \<open>0.0 / 0.0\<close>.
\<close>

datatype pyfloat = Fin rat | PInf | NInf | NaN

fun fabs :: "pyfloat \<Rightarrow> pyfloat" where
  "fabs (Fin a) = Fin \<bar>a\<bar>"
| "fabs PInf = PInf"
| "fabs NInf = PInf"
| "fabs NaN = NaN"

text \<open>Division and multiplication follow IEEE 754 on the special values.\<close>

fun fdiv :: "pyfloat \<Rightarrow> pyfloat \<Rightarrow> pyfloat" where
  "fdiv NaN _ = NaN"
| "fdiv _ NaN = NaN"
| "fdiv (Fin a) (Fin b) =
     (if b = 0 then (if a = 0 then NaN else if 0 < a then PInf else NInf) else Fin (a / b))"
| "fdiv (Fin a) PInf = Fin 0"
| "fdiv (Fin a) NInf = Fin 0"
| "fdiv PInf (Fin b) = (if 0 \<le> b then PInf else NInf)"
| "fdiv NInf (Fin b) = (if 0 \<le> b then NInf else PInf)"
| "fdiv PInf PInf = NaN"
| "fdiv PInf NInf = NaN"
| "fdiv NInf PInf = NaN"
| "fdiv NInf NInf = NaN"

fun fmul :: "pyfloat \<Rightarrow> pyfloat \<Rightarrow> pyfloat" where
  "fmul NaN _ = NaN"
| "fmul _ NaN = NaN"
| "fmul (Fin a) (Fin b) = Fin (a * b)"
| "fmul (Fin a) PInf = (if a = 0 then NaN else if 0 < a then PInf else NInf)"
| "fmul (Fin a) NInf = (if a = 0 then NaN else if 0 < a then NInf else PInf)"
| "fmul PInf (Fin b) = (if b = 0 then NaN else if 0 < b then PInf else NInf)"
| "fmul NInf (Fin b) = (if b = 0 then NaN else if 0 < b then NInf else PInf)"
| "fmul PInf PInf = PInf"
| "fmul PInf NInf = NInf"
| "fmul NInf PInf = NInf"
| "fmul NInf NInf = PInf"

text \<open>The larger of two values that are not NaN.\<close>

fun fmax :: "pyfloat \<Rightarrow> pyfloat \<Rightarrow> pyfloat" where
  "fmax (Fin a) (Fin b) = Fin (max a b)"
| "fmax PInf _ = PInf"
| "fmax _ PInf = PInf"
| "fmax NInf y = y"
| "fmax x NInf = x"
| "fmax NaN y = y"
| "fmax x NaN = x"

text \<open>
  \<open>Series.max()\<close> skips NaN entries and is NaN when nothing is left, in particular on
  an empty column.
\<close>

definition series_max :: "pyfloat list \<Rightarrow> pyfloat" where
  "series_max xs = (case filter (\<lambda>x. x \<noteq> NaN) xs of [] \<Rightarrow> NaN | y # ys \<Rightarrow> fold fmax ys y)"

text \<open>
  \<open>mean\<close> of a group of converted values, NaN on no values: the exact sum over the exact
  count, where pandas adds and divides in doubles.
\<close>

definition mean :: "rat list \<Rightarrow> pyfloat" where
  "mean xs = (if xs = [] then NaN else Fin (sum_list xs / of_nat (length xs)))"

section \<open>Strings\<close>

definition is_digit :: "char \<Rightarrow> bool" where
  "is_digit c \<longleftrightarrow> CHR ''0'' \<le> c \<and> c \<le> CHR ''9''"

definition digit_val :: "char \<Rightarrow> nat" where
  "digit_val c = of_char c - 48"

definition num :: "nat list \<Rightarrow> nat" where
  "num ds = foldl (\<lambda>a d. 10 * a + d) 0 ds"

text \<open>Whitespace in the Latin-1 range, as \<open>str.isspace\<close> has it.\<close>

definition is_space :: "char \<Rightarrow> bool" where
  "is_space c \<longleftrightarrow> (of_char c :: nat) \<in> set [9, 10, 11, 12, 13, 28, 29, 30, 31, 32, 133, 160]"

definition strip :: "string \<Rightarrow> string" where
  "strip s = rev (dropWhile is_space (rev (dropWhile is_space s)))"

definition to_lower :: "char \<Rightarrow> char" where
  "to_lower c = (case map_of (zip ''ABCDEFGHIJKLMNOPQRSTUVWXYZ'' ''abcdefghijklmnopqrstuvwxyz'') c of
                   Some l \<Rightarrow> l | None \<Rightarrow> c)"

text \<open>Python's \<open>s[i:j]\<close> for \<open>0 \<le> i \<le> j\<close>: out-of-range bounds are clipped, never an error.\<close>

definition slice :: "nat \<Rightarrow> nat \<Rightarrow> string \<Rightarrow> string" where
  "slice i j s = take (j - i) (drop i s)"

text \<open>
  \<open>str.splitlines()\<close>: the line boundaries in the Latin-1 range are LF, CR, CR LF, VT,
  FF, FS, GS, RS and NEL; a final line break does not open an empty last line.
\<close>

definition is_linebreak :: "char \<Rightarrow> bool" where
  "is_linebreak c \<longleftrightarrow> (of_char c :: nat) \<in> set [10, 11, 12, 13, 28, 29, 30, 133]"

fun split_acc :: "string \<Rightarrow> string \<Rightarrow> string list" where
  "split_acc cur [] = (if cur = [] then [] else [rev cur])"
| "split_acc cur [c] = (if is_linebreak c then [rev cur] else [rev (c # cur)])"
| "split_acc cur (c # n # cs) =
     (if c = CHR 0x0D \<and> n = CHR 0x0A then rev cur # split_acc [] cs
      else if is_linebreak c then rev cur # split_acc [] (n # cs)
      else split_acc (c # cur) (n # cs))"

definition splitlines :: "string \<Rightarrow> string list" where
  "splitlines s = split_acc [] s"

text \<open>\<open>str(n)\<close> for an integer: decimal digits, with a minus sign when negative.\<close>

definition digit_char :: "nat \<Rightarrow> char" where
  "digit_char d = ''0123456789'' ! d"

fun str_nat :: "nat \<Rightarrow> string" where
  "str_nat n = (if n < 10 then [digit_char n] else str_nat (n div 10) @ [digit_char (n mod 10)])"

declare str_nat.simps [simp del]

definition str_int :: "int \<Rightarrow> string" where
  "str_int i = (if i < 0 then CHR ''-'' # str_nat (nat (- i)) else str_nat (nat i))"

section \<open>Reading a float: \<open>float(s)\<close>\<close>

text \<open>
  \<open>float\<close> strips surrounding whitespace and accepts an optional sign followed by
  \<open>inf\<close>, \<open>infinity\<close> or \<open>nan\<close> in any case, or by a decimal number with an optional
  exponent; single underscores may stand between digits. Anything else raises
  \<open>ValueError\<close>, which is \<open>None\<close> here.
\<close>

fun digitpart_rest :: "string \<Rightarrow> nat list \<times> string" where
  "digitpart_rest [] = ([], [])"
| "digitpart_rest (c # cs) =
     (if is_digit c then (case digitpart_rest cs of (ds, r) \<Rightarrow> (digit_val c # ds, r))
      else if c = CHR ''_'' \<and> cs \<noteq> [] \<and> is_digit (hd cs) then digitpart_rest cs
      else ([], c # cs))"

definition digitpart :: "string \<Rightarrow> (nat list \<times> string) option" where
  "digitpart s = (case s of [] \<Rightarrow> None | c # _ \<Rightarrow> if is_digit c then Some (digitpart_rest s) else None)"

definition sign_of :: "string \<Rightarrow> bool \<times> string" where
  "sign_of s = (case s of [] \<Rightarrow> (False, [])
     | c # cs \<Rightarrow> if c = CHR ''-'' then (True, cs) else if c = CHR ''+'' then (False, cs) else (False, s))"

definition pow10 :: "int \<Rightarrow> rat" where
  "pow10 k = (if 0 \<le> k then 10 ^ nat k else 1 / 10 ^ nat (- k))"

definition mk_float :: "nat list \<Rightarrow> nat list \<Rightarrow> int \<Rightarrow> rat" where
  "mk_float ip fp e = of_nat (num (ip @ fp)) * pow10 (e - int (length fp))"

definition exponent :: "nat list \<Rightarrow> nat list \<Rightarrow> string \<Rightarrow> rat option" where
  "exponent ip fp r = (case r of [] \<Rightarrow> Some (mk_float ip fp 0)
     | c # r' \<Rightarrow>
        if c = CHR ''e'' \<or> c = CHR ''E'' then
          (case sign_of r' of (neg, r'') \<Rightarrow>
            (case digitpart r'' of
               Some (ds, []) \<Rightarrow> Some (mk_float ip fp (if neg then - int (num ds) else int (num ds)))
             | _ \<Rightarrow> None))
        else None)"

definition abs_float :: "string \<Rightarrow> rat option" where
  "abs_float s = (case digitpart s of
       Some (ip, r) \<Rightarrow>
         (case r of
            c # r' \<Rightarrow>
              if c = CHR ''.'' then
                (case digitpart r' of Some (fp, r'') \<Rightarrow> exponent ip fp r'' | None \<Rightarrow> exponent ip [] r')
              else exponent ip [] r
          | [] \<Rightarrow> exponent ip [] r)
     | None \<Rightarrow>
         (case s of
            c # r' \<Rightarrow>
              if c = CHR ''.'' then
                (case digitpart r' of Some (fp, r'') \<Rightarrow> exponent [] fp r'' | None \<Rightarrow> None)
              else None
          | [] \<Rightarrow> None))"

definition py_float :: "string \<Rightarrow> pyfloat option" where
  "py_float s = (case sign_of (strip s) of (neg, u) \<Rightarrow>
     if map to_lower u = ''inf'' \<or> map to_lower u = ''infinity'' then Some (if neg then NInf else PInf)
     else if map to_lower u = ''nan'' then Some NaN
     else map_option (\<lambda>q. Fin (if neg then - q else q)) (abs_float u))"

section \<open>Exceptions\<close>

text \<open>
  The two handlers of \<open>fetch_and_process_data\<close> tell \<open>requests.RequestException\<close> from
  every other exception; \<open>ValueError\<close> is what \<open>float\<close> and \<open>pd.to_datetime\<close> raise,
  \<open>ArchiveError\<close> stands for whatever \<open>gzip.open\<close>, \<open>pd.read_csv\<close> or naming the eight
  columns raise on a body that is not such an archive, \<open>OSError\<close> is what \<open>to_csv\<close>
  raises when the output file cannot be written.
\<close>

datatype exn = RequestException | ValueError | ArchiveError | OSError

section \<open>The station inventory\<close>

type_synonym station = "string \<times> pyfloat \<times> pyfloat"

text \<open>
  The loop over the inventory lines. Both coordinates are converted before the country is
  compared, for every line; a conversion that raises ends the loop with the exception.
\<close>

fun stations_loop :: "string \<Rightarrow> string list \<Rightarrow> station list \<Rightarrow> exn + station list" where
  "stations_loop country_code [] stations = Inr stations"
| "stations_loop country_code (line # rest) stations =
     (let country = slice 0 2 line;
          station_id = slice 0 11 line
      in case py_float (slice 12 20 line) of
           None \<Rightarrow> Inl ValueError
         | Some lat \<Rightarrow>
            (case py_float (slice 21 30 line) of
               None \<Rightarrow> Inl ValueError
             | Some lon \<Rightarrow>
                if country = country_code
                then stations_loop country_code rest (stations @ [(station_id, lat, lon)])
                else stations_loop country_code rest stations))"

definition parse_stations :: "string \<Rightarrow> string \<Rightarrow> exn + station list" where
  "parse_stations country_code inventory_data = stations_loop country_code (splitlines inventory_data) []"

section \<open>The observation table\<close>

text \<open>
  A row of the yearly archive as \<open>pd.read_csv\<close> delivers it. Only the four columns the
  program reads are kept; \<open>DATE\<close> holds the text \<open>astype(str)\<close> gives, \<open>VALUE\<close> the
  integer tenths of a degree.
\<close>

record obs_row =
  obs_ID :: string
  obs_DATE :: string
  obs_ELEMENT :: string
  obs_VALUE :: int

text \<open>
  \<open>pd.to_datetime(..., format='%Y%m%d')\<close> on one entry: the empty string and the
  missing-value spellings become \<open>NaT\<close> (\<open>None\<close>); eight digits that name a day of the
  calendar become that day at midnight, provided a nanosecond timestamp can hold it; anything
  else raises \<open>ValueError\<close>. The timestamps of pandas count nanoseconds in 64 bits, from
  1677-09-21 00:12:43 to 2262-04-11 23:47:16, so the first midnight they hold is that of
  1677-09-22 and the last that of 2262-04-11; outside, the conversion raises
  \<open>OutOfBoundsDatetime\<close>, which is a \<open>ValueError\<close>.
\<close>

type_synonym date = "nat \<times> nat \<times> nat"

definition leap :: "nat \<Rightarrow> bool" where
  "leap y \<longleftrightarrow> (y mod 4 = 0 \<and> y mod 100 \<noteq> 0) \<or> y mod 400 = 0"

definition days_in_month :: "nat \<Rightarrow> nat \<Rightarrow> nat" where
  "days_in_month y m =
     (if m = 2 then (if leap y then 29 else 28)
      else if m = 4 \<or> m = 6 \<or> m = 9 \<or> m = 11 then 30 else 31)"

fun date_le :: "date \<Rightarrow> date \<Rightarrow> bool" where
  "date_le (y, m, d) (y', m', d') \<longleftrightarrow> y < y' \<or> (y = y' \<and> (m < m' \<or> (m = m' \<and> d \<le> d')))"

definition in_bounds :: "date \<Rightarrow> bool" where
  "in_bounds t \<longleftrightarrow> date_le (1677, 9, 22) t \<and> date_le t (2262, 4, 11)"

definition nat_strings :: "string list" where
  "nat_strings = [''NaT'', ''nat'', ''NAT'', ''nan'', ''NaN'', ''NAN'']"

definition to_datetime :: "string \<Rightarrow> exn + date option" where
  "to_datetime s =
     (if s = [] \<or> s \<in> set nat_strings then Inr None
      else if length s = 8 \<and> list_all is_digit s then
        (let y = num (map digit_val (slice 0 4 s));
             m = num (map digit_val (slice 4 6 s));
             d = num (map digit_val (slice 6 8 s))
         in if 1 \<le> m \<and> m \<le> 12 \<and> 1 \<le> d \<and> d \<le> days_in_month y m \<and> in_bounds (y, m, d)
            then Inr (Some (y, m, d)) else Inl ValueError)
      else Inl ValueError)"

text \<open>The conversion of a whole column raises as soon as one entry does.\<close>

fun to_datetime_all :: "string list \<Rightarrow> exn + date option list" where
  "to_datetime_all [] = Inr []"
| "to_datetime_all (s # ss) =
     (case to_datetime s of
        Inl e \<Rightarrow> Inl e
      | Inr d \<Rightarrow> (case to_datetime_all ss of Inl e \<Rightarrow> Inl e | Inr ds \<Rightarrow> Inr (d # ds)))"

text \<open>The row filter: \<open>data['ID'].isin(station_ids) & data['ELEMENT'].isin([...])\<close>.\<close>

definition retained :: "string list \<Rightarrow> obs_row \<Rightarrow> bool" where
  "retained station_ids r \<longleftrightarrow>
     obs_ID r \<in> set station_ids \<and> obs_ELEMENT r \<in> set [''TMAX'', ''TMIN'', ''TAVG'']"

definition country_rows :: "station list \<Rightarrow> obs_row list \<Rightarrow> obs_row list" where
  "country_rows stations data = filter (retained (map fst stations)) data"

text \<open>
  \<open>VALUE.astype(float) / 10.0\<close>, as the exact tenth of the integer: the rounding of the
  quotient to a double is not modelled.
\<close>

definition celsius :: "obs_row \<Rightarrow> rat" where
  "celsius r = of_int (obs_VALUE r) / 10"

text \<open>
  \<open>groupby(['ID']).agg({'VALUE': 'mean'}).reset_index()\<close>: one row for each station id
  that occurs, in ascending order of the ids, with the mean of that station's values.
\<close>

definition groupby_mean :: "obs_row list \<Rightarrow> (string \<times> pyfloat) list" where
  "groupby_mean rows =
     map (\<lambda>i. (i, mean (map celsius (filter (\<lambda>r. obs_ID r = i) rows))))
         (sort (remdups (map obs_ID rows)))"

section \<open>Join and marker sizes\<close>

record plot_row =
  ID :: string
  VALUE :: pyfloat
  LAT :: pyfloat
  LON :: pyfloat
  SIZE :: pyfloat

text \<open>
  \<open>avg_temp_data.merge(station_df, on='ID')\<close>: the inner join, in the order of the rows of
  the averages, each with its matching stations in inventory order. \<open>SIZE\<close> is set by the
  next step and is NaN until then.
\<close>

definition merge_on_ID :: "(string \<times> pyfloat) list \<Rightarrow> station list \<Rightarrow> plot_row list" where
  "merge_on_ID avg stations =
     concat (map (\<lambda>(i, v).
        map (\<lambda>(_, lat, lon). \<lparr>ID = i, VALUE = v, LAT = lat, LON = lon, SIZE = NaN\<rparr>)
            (filter (\<lambda>st. fst st = i) stations)) avg)"

definition normalize :: "plot_row list \<Rightarrow> plot_row list" where
  "normalize rows =
     (let sizes = map (\<lambda>p. fabs (VALUE p)) rows;
          max_temp = series_max sizes
      in map (\<lambda>p. p\<lparr>SIZE := fmul (fdiv (fabs (VALUE p)) max_temp) (Fin 15)\<rparr>) rows)"

text \<open>Lines 46 to 59 of the source: from the stations and the table to the rows written.\<close>

definition process :: "station list \<Rightarrow> obs_row list \<Rightarrow> exn + plot_row list" where
  "process stations data =
     (let country_data = country_rows stations data
      in case to_datetime_all (map obs_DATE country_data) of
           Inl e \<Rightarrow> Inl e
         | Inr dates \<Rightarrow> Inr (normalize (merge_on_ID (groupby_mean country_data) stations)))"

section \<open>The world: files, network, output\<close>

text \<open>
  What a run reads and changes. \<open>files\<close> is the working directory, \<open>http\<close> what a GET
  of a URL answers, \<open>requested\<close> the URLs fetched so far, \<open>stdout\<close> what was printed,
  \<open>figures\<close> the tables shown as a map, \<open>plot_ok\<close> says on which tables building and
  showing the figure goes through, and \<open>writable\<close> at which paths \<open>to_csv\<close> can create
  the file (not, for one, below a directory that does not exist). A write that fails is
  taken to fail on opening the file and to leave the files as they were.
\<close>

datatype file_content = Csv "plot_row list" | Other string

text \<open>
  A response either fails (\<open>requests.get\<close> or \<open>raise_for_status\<close> raises a
  \<open>RequestException\<close>) or has a body: \<open>body_text\<close> is \<open>response.text\<close>, \<open>body_table\<close> the table
  read from the body as a gzip archive of eight columns, \<open>None\<close> when reading it raises.
\<close>

datatype response = Failed | Response (body_text: string) (body_table: "obs_row list option")

datatype message =
    Skipping string int
  | Found nat string
  | Saved string
  | ErrorFetching
  | ErrorProcessing exn
  | CsvMissing string
  | ErrorVisualizing

record world =
  files :: "string \<rightharpoonup> file_content"
  http :: "string \<Rightarrow> response"
  requested :: "string list"
  stdout :: "message list"
  figures :: "plot_row list list"
  plot_ok :: "plot_row list \<Rightarrow> bool"
  writable :: "string \<Rightarrow> bool"

definition print :: "message \<Rightarrow> world \<Rightarrow> world" where
  "print m w = w\<lparr>stdout := stdout w @ [m]\<rparr>"

definition exists :: "world \<Rightarrow> string \<Rightarrow> bool" where
  "exists w path \<longleftrightarrow> files w path \<noteq> None"

definition inventory_url :: string where
  "inventory_url = ''https://www1.ncdc.noaa.gov/pub/data/ghcn/daily/ghcnd-stations.txt''"

definition ghcn_url :: "int \<Rightarrow> string" where
  "ghcn_url year = ''https://www1.ncdc.noaa.gov/pub/data/ghcn/daily/by_year/'' @ str_int year @ ''.csv.gz''"

definition output_name :: "string \<Rightarrow> int \<Rightarrow> string" where
  "output_name country_code year = country_code @ ''_temperature_'' @ str_int year @ ''_processed.csv''"

text \<open>\<open>requests.get(url)\<close> followed by \<open>raise_for_status()\<close>.\<close>

definition get :: "world \<Rightarrow> string \<Rightarrow> world \<times> response" where
  "get w url = (w\<lparr>requested := requested w @ [url]\<rparr>, http w url)"

section \<open>\<open>fetch_and_process_data\<close>\<close>

text \<open>
  The body of the \<open>try\<close>: the world it leaves, and the exception raised or the normal end.
\<close>

definition try_body :: "world \<Rightarrow> int \<Rightarrow> string \<Rightarrow> string \<Rightarrow> world \<times> (exn + unit)" where
  "try_body w year country_code output_file =
     (case get w inventory_url of
        (w1, Failed) \<Rightarrow> (w1, Inl RequestException)
      | (w1, Response inventory_data _) \<Rightarrow>
         (case parse_stations country_code inventory_data of
            Inl e \<Rightarrow> (w1, Inl e)
          | Inr stations \<Rightarrow>
             (case get (print (Found (length stations) country_code) w1) (ghcn_url year) of
                (w2, Failed) \<Rightarrow> (w2, Inl RequestException)
              | (w2, Response _ None) \<Rightarrow> (w2, Inl ArchiveError)
              | (w2, Response _ (Some data)) \<Rightarrow>
                 (case process stations data of
                    Inl e \<Rightarrow> (w2, Inl e)
                  | Inr avg_temp_data \<Rightarrow>
                     if writable w2 output_file
                     then (print (Saved output_file)
                            (w2\<lparr>files := (files w2)(output_file \<mapsto> Csv avg_temp_data)\<rparr>), Inr ())
                     else (w2, Inl OSError)))))"

definition fetch_and_process_data :: "world \<Rightarrow> int \<Rightarrow> string \<Rightarrow> string option \<times> world" where
  "fetch_and_process_data w year country_code =
     (let output_file = output_name country_code year
      in if exists w output_file then (Some output_file, print (Skipping country_code year) w)
         else (case try_body w year country_code output_file of
                 (w', Inr _) \<Rightarrow> (Some output_file, w')
               | (w', Inl RequestException) \<Rightarrow> (None, print ErrorFetching w')
               | (w', Inl e) \<Rightarrow> (None, print (ErrorProcessing e) w')))"

section \<open>\<open>visualize_data\<close> and \<open>main\<close>\<close>

definition visualize_data :: "world \<Rightarrow> string \<Rightarrow> string \<Rightarrow> int \<Rightarrow> world" where
  "visualize_data w csv_file country_code year =
     (case files w csv_file of
        None \<Rightarrow> print (CsvMissing csv_file) w
      | Some (Csv avg_temp_data) \<Rightarrow>
          if plot_ok w avg_temp_data then w\<lparr>figures := figures w @ [avg_temp_data]\<rparr>
          else print ErrorVisualizing w
      | Some (Other _) \<Rightarrow> print ErrorVisualizing w)"

text \<open>\<open>if csv_file:\<close> is false on \<open>None\<close> and on the empty string.\<close>

definition main :: "world \<Rightarrow> int \<Rightarrow> string \<Rightarrow> world" where
  "main w year country =
     (case fetch_and_process_data w year country of
        (None, w') \<Rightarrow> w'
      | (Some csv_file, w') \<Rightarrow>
          if csv_file \<noteq> [] then visualize_data w' csv_file country year else w')"

section \<open>Notions used in the statements\<close>

text \<open>
  The station a well-formed inventory line stands for.
\<close>

definition station_of_line :: "string \<Rightarrow> station" where
  "station_of_line line = (slice 0 11 line, the (py_float (slice 12 20 line)), the (py_float (slice 21 30 line)))"

text \<open>
  The absolute mean temperature of a row of the result.
\<close>

definition abs_value :: "plot_row \<Rightarrow> rat" where
  "abs_value p = (case VALUE p of Fin v \<Rightarrow> \<bar>v\<bar> | _ \<Rightarrow> 0)"

text \<open>
  Two tables with the same rows up to the \<open>DATE\<close> column.
\<close>

definition same_but_dates :: "obs_row list \<Rightarrow> obs_row list \<Rightarrow> bool" where
  "same_but_dates data data' \<longleftrightarrow>
     map (\<lambda>r. r\<lparr>obs_DATE := []\<rparr>) data = map (\<lambda>r. r\<lparr>obs_DATE := []\<rparr>) data'"

section \<open>Example inputs\<close>

text \<open>
  An inventory in the fixed-width layout, observation tables, and worlds without files in
  which the two URLs answer with them.
\<close>

definition mk_row :: "string \<Rightarrow> string \<Rightarrow> string \<Rightarrow> int \<Rightarrow> obs_row" where
  "mk_row i d e v = \<lparr>obs_ID = i, obs_DATE = d, obs_ELEMENT = e, obs_VALUE = v\<rparr>"

definition ex_inventory :: string where
  "ex_inventory = ''NO000102000  59.9000   10.7200'' @ [CHR 0x0A]
                @ ''SE000000001  59.3300   18.0600'' @ [CHR 0x0A]
                @ ''NO000102001  60.3900    5.3200'' @ [CHR 0x0A]"

definition ex_stations :: "station list" where
  "ex_stations = [(''NO000102000'', Fin (599 / 10), Fin (268 / 25)),
                  (''NO000102001'', Fin (6039 / 100), Fin (133 / 25))]"

definition ex_data :: "obs_row list" where
  "ex_data = [mk_row ''NO000102001'' ''20200101'' ''TMIN'' (- 110),
              mk_row ''NO000102000'' ''20200101'' ''TMAX'' 210,
              mk_row ''SE000000001'' ''20200101'' ''TMAX'' 50,
              mk_row ''NO000102000'' ''20200101'' ''PRCP'' 12,
              mk_row ''NO000102000'' ''20200102'' ''TMAX'' 230]"

definition ex_rows :: "plot_row list" where
  "ex_rows = [\<lparr>ID = ''NO000102000'', VALUE = Fin 22, LAT = Fin (599 / 10), LON = Fin (268 / 25), SIZE = Fin 15\<rparr>,
              \<lparr>ID = ''NO000102001'', VALUE = Fin (- 11), LAT = Fin (6039 / 100), LON = Fin (133 / 25), SIZE = Fin (15 / 2)\<rparr>]"

definition ex_world :: "string \<Rightarrow> obs_row list \<Rightarrow> world" where
  "ex_world inventory data =
     \<lparr>files = Map.empty,
      http = (\<lambda>url. if url = inventory_url then Response inventory None
                    else if url = ghcn_url 2020 then Response [] (Some data) else Failed),
      requested = [], stdout = [], figures = [], plot_ok = (\<lambda>_. True), writable = (\<lambda>_. True)\<rparr>"

definition se_data :: "obs_row list" where
  "se_data = [mk_row ''SE000000001'' ''20200101'' ''TMAX'' 50,
              mk_row ''NO000102000'' ''20200101'' ''PRCP'' 12]"

definition zero_data :: "obs_row list" where
  "zero_data = [mk_row ''NO000102000'' ''20200101'' ''TMAX'' 0]"

definition zero_rows :: "plot_row list" where
  "zero_rows = [\<lparr>ID = ''NO000102000'', VALUE = Fin 0, LAT = Fin (599 / 10), LON = Fin (268 / 25), SIZE = NaN\<rparr>]"


definition bad_date_data :: "obs_row list" where
  "bad_date_data = [mk_row ''NO000102000'' ''2020-01-01'' ''TMAX'' 210,
                    mk_row ''NO000102000'' ''20200102'' ''TMAX'' 230]"

definition cached_world :: world where
  "cached_world = \<lparr>files = [''NO_temperature_2020_processed.csv'' \<mapsto> Other ''ID,VALUE,LAT,LON,SIZE''],
      http = (\<lambda>url. Failed), requested = [], stdout = [], figures = [], plot_ok = (\<lambda>_. True),
      writable = (\<lambda>_. True)\<rparr>"

definition offline_world :: world where
  "offline_world = \<lparr>files = Map.empty, http = (\<lambda>url. Failed), requested = [], stdout = [],
      figures = [], plot_ok = (\<lambda>_. True), writable = (\<lambda>_. True)\<rparr>"

definition size_stations :: "station list" where
  "size_stations = [(''AA000000001'', Fin 1, Fin 2), (''AA000000002'', Fin 3, Fin 4),
                    (''AA000000003'', Fin 5, Fin 6)]"

definition size_data :: "obs_row list" where
  "size_data = [mk_row ''AA000000003'' ''20200101'' ''TAVG'' 40,
                mk_row ''AA000000001'' ''20200101'' ''TMAX'' 10,
                mk_row ''AA000000002'' ''20200101'' ''TMIN'' (- 20)]"

definition size_p1 :: plot_row where
  "size_p1 = \<lparr>ID = ''AA000000001'', VALUE = Fin 1, LAT = Fin 1, LON = Fin 2, SIZE = Fin (15 / 4)\<rparr>"

definition size_p2 :: plot_row where
  "size_p2 = \<lparr>ID = ''AA000000002'', VALUE = Fin (- 2), LAT = Fin 3, LON = Fin 4, SIZE = Fin (15 / 2)\<rparr>"

definition size_p3 :: plot_row where
  "size_p3 = \<lparr>ID = ''AA000000003'', VALUE = Fin 4, LAT = Fin 5, LON = Fin 6, SIZE = Fin 15\<rparr>"

definition redated_data :: "obs_row list" where
  "redated_data = [mk_row ''NO000102001'' ''20200615'' ''TMIN'' (- 110),
                   mk_row ''NO000102000'' ''20201231'' ''TMAX'' 210,
                   mk_row ''SE000000001'' ''20200229'' ''TMAX'' 50,
                   mk_row ''NO000102000'' ''20200101'' ''PRCP'' 12,
                   mk_row ''NO000102000'' ''22620411'' ''TMAX'' 230]"

section \<open>Properties\<close>

lemma try_body_files_fail:
  "try_body w year cc out = (w', Inl e) \<Longrightarrow> files w' = files w \<and> figures w' = figures w"
  by (auto simp: try_body_def get_def print_def
      split: response.splits sum.splits option.splits prod.splits if_splits)

lemma try_body_ok:
  "try_body w year cc out = (w', Inr u) \<Longrightarrow> figures w' = figures w \<and> (\<exists>rows. files w' = (files w)(out \<mapsto> Csv rows))"
  by (auto simp: try_body_def get_def print_def
      split: response.splits sum.splits option.splits prod.splits if_splits)

subsection \<open>The cache gate and the failure paths\<close>

lemma fetch_cached:
  "exists w (output_name cc year) \<Longrightarrow>
   fetch_and_process_data w year cc = (Some (output_name cc year), print (Skipping cc year) w)"
  by (simp add: fetch_and_process_data_def)

lemma fetch_Some:
  assumes "fetch_and_process_data w year cc = (Some p, w')"
  shows "p = output_name cc year \<and> exists w' p"
proof (cases "exists w (output_name cc year)")
  case True
  with assms show ?thesis by (auto simp: fetch_cached print_def exists_def)
next
  case False
  obtain w1 r where tb: "try_body w year cc (output_name cc year) = (w1, r)" by (cases "try_body w year cc (output_name cc year)")
  show ?thesis
  proof (cases r)
    case (Inl e)
    with assms False tb show ?thesis by (cases e) (simp_all add: fetch_and_process_data_def)
  next
    case (Inr u)
    with tb try_body_ok[of w year cc "output_name cc year" w1 u] obtain rows where "files w1 = (files w)(output_name cc year \<mapsto> Csv rows)" by auto
    with assms False tb Inr show ?thesis by (auto simp add: fetch_and_process_data_def exists_def)
  qed
qed

lemma fetch_None_files:
  assumes "fetch_and_process_data w year cc = (None, w')"
  shows "files w' = files w \<and> figures w' = figures w"
proof -
  from assms have ne: "\<not> exists w (output_name cc year)" by (auto simp: fetch_and_process_data_def)
  obtain w1 r where tb: "try_body w year cc (output_name cc year) = (w1, r)" by (cases "try_body w year cc (output_name cc year)")
  show ?thesis
  proof (cases r)
    case (Inl e)
    with tb try_body_files_fail[of w year cc _ w1 e] assms ne show ?thesis
      by (cases e) (auto simp: fetch_and_process_data_def print_def)
  next
    case (Inr u)
    with assms ne tb show ?thesis by (simp add: fetch_and_process_data_def)
  qed
qed

lemma try_body_fetch_fails:
  assumes "http w inventory_url = Failed \<or> http w (ghcn_url year) = Failed"
  shows "\<exists>w' e. try_body w year cc out = (w', Inl e)"
  using assms
  by (auto simp: try_body_def get_def print_def split: response.splits sum.splits option.splits prod.splits)

text \<open>
  Claim C9. On a run without a cached file in which the request of the inventory or of the
  yearly archive fails, \<open>fetch_and_process_data\<close> returns \<open>None\<close> and leaves the files
  as they were; \<open>main\<close> then ends in the state \<open>fetch_and_process_data\<close> left, so
  \<open>visualize_data\<close> is not run and no figure is shown.
\<close>

theorem fetch_failure_no_artifact:
  assumes "\<not> exists w (output_name cc year)"
    and "http w inventory_url = Failed \<or> http w (ghcn_url year) = Failed"
  shows "fst (fetch_and_process_data w year cc) = None
       \<and> files (snd (fetch_and_process_data w year cc)) = files w
       \<and> main w year cc = snd (fetch_and_process_data w year cc)
       \<and> figures (main w year cc) = figures w"
proof -
  from try_body_fetch_fails[OF assms(2)] obtain w1 e where tb: "try_body w year cc (output_name cc year) = (w1, Inl e)" by blast
  have n: "fst (fetch_and_process_data w year cc) = None"
    using assms(1) tb by (cases e) (simp_all add: fetch_and_process_data_def)
  then obtain w' where f: "fetch_and_process_data w year cc = (None, w')" by (cases "fetch_and_process_data w year cc") auto
  from fetch_None_files[OF f] f show ?thesis by (simp add: main_def)
qed

subsection \<open>The station inventory\<close>

lemma stations_loop_Inr:
  "stations_loop cc lines acc = Inr sts \<Longrightarrow>
   sts = acc @ map station_of_line (filter (\<lambda>l. slice 0 2 l = cc) lines)"
proof (induction lines arbitrary: acc)
  case Nil
  then show ?case by simp
next
  case (Cons line rest)
  from Cons.prems obtain lat lon where
    lat: "py_float (slice 12 20 line) = Some lat" and lon: "py_float (slice 21 30 line) = Some lon"
    by (auto simp: Let_def split: option.splits)
  show ?case
  proof (cases "slice 0 2 line = cc")
    case True
    with Cons.prems lat lon
    have "stations_loop cc rest (acc @ [(slice 0 11 line, lat, lon)]) = Inr sts" by (simp add: Let_def)
    from Cons.IH[OF this] True lat lon show ?thesis by (simp add: station_of_line_def)
  next
    case False
    with Cons.prems lat lon have "stations_loop cc rest acc = Inr sts" by (simp add: Let_def)
    from Cons.IH[OF this] False show ?thesis by simp
  qed
qed


lemma stations_loop_error: "stations_loop cc lines acc = Inl e \<Longrightarrow> e = ValueError"
  by (induction lines arbitrary: acc) (auto simp: Let_def split: option.splits if_splits)

text \<open>
  Claim C7. When the inventory is read without an exception, every station returned has an id
  whose first two characters are the country code, and the stations are those of the lines
  that start with the country code, in the order of the lines.
\<close>

theorem stations_match_country_in_order:
  assumes "parse_stations cc inventory_data = Inr stations"
  shows "(\<forall>s\<in>set stations. take 2 (fst s) = cc)
       \<and> stations = map station_of_line (filter (\<lambda>l. take 2 l = cc) (splitlines inventory_data))"
proof -
  from stations_loop_Inr[OF assms[unfolded parse_stations_def]]
  have eq: "stations = map station_of_line (filter (\<lambda>l. take 2 l = cc) (splitlines inventory_data))"
    by (simp add: slice_def)
  have "take 2 (fst (station_of_line l)) = take 2 l" for l
    by (simp add: station_of_line_def slice_def)
  with eq show ?thesis by auto
qed

text \<open>
  Claim C6. Every row that passes the filter has one of the three temperature elements and the
  id of a requested station; a row that does not pass it can be removed from the table without
  changing the station averages or the result of the processing.
\<close>

theorem filter_keeps_only_requested:
  "(\<forall>r\<in>set (country_rows stations data).
      obs_ELEMENT r \<in> {''TMAX'', ''TMIN'', ''TAVG''} \<and> obs_ID r \<in> fst ` set stations)
   \<and> (\<forall>xs r ys. data = xs @ r # ys \<and> \<not> retained (map fst stations) r \<longrightarrow>
         groupby_mean (country_rows stations data) = groupby_mean (country_rows stations (xs @ ys))
       \<and> process stations data = process stations (xs @ ys))"
  by (auto simp: country_rows_def retained_def process_def)

subsection \<open>Aggregation and marker sizes\<close>

lemma groupby_mean_mem:
  "(i, m) \<in> set (groupby_mean rows) \<longleftrightarrow>
   i \<in> obs_ID ` set rows \<and> m = mean (map celsius (filter (\<lambda>r. obs_ID r = i) rows))"
  by (auto simp: groupby_mean_def)

lemma group_nonempty: "i \<in> obs_ID ` set rows \<Longrightarrow> filter (\<lambda>r. obs_ID r = i) rows \<noteq> []"
  by (auto simp: filter_empty_conv)

lemma groupby_mean_keys: "map fst (groupby_mean rows) = sort (remdups (map obs_ID rows))"
  by (simp add: groupby_mean_def comp_def)

lemma groupby_mean_Fin:
  assumes "(i, m) \<in> set (groupby_mean rows)"
  shows "\<exists>q. m = Fin q"
proof -
  from assms have "i \<in> obs_ID ` set rows" and m: "m = mean (map celsius (filter (\<lambda>r. obs_ID r = i) rows))"
    by (simp_all add: groupby_mean_mem)
  from group_nonempty[OF this(1)] m show ?thesis by (simp add: mean_def)
qed

text \<open>
  The aggregation in the exact arithmetic of the model: each row holds the sum of the
  converted values of its station's rows over their number, which is not zero; the stations
  of the aggregation are those that occur in the rows, each once. What the doubles of the
  program add up to is not stated here.
\<close>

lemma aggregation_rows:
  "(\<forall>i m. (i, m) \<in> set (groupby_mean rows) \<longrightarrow>
        (let vs = map celsius (filter (\<lambda>r. obs_ID r = i) rows)
         in vs \<noteq> [] \<and> m = Fin (sum_list vs / of_nat (length vs))))
   \<and> fst ` set (groupby_mean rows) = obs_ID ` set rows
   \<and> distinct (map fst (groupby_mean rows))"
proof -
  have b: "\<forall>i m. (i, m) \<in> set (groupby_mean rows) \<longrightarrow>
        (let vs = map celsius (filter (\<lambda>r. obs_ID r = i) rows)
         in vs \<noteq> [] \<and> m = Fin (sum_list vs / of_nat (length vs)))"
  proof (intro allI impI)
    fix i m assume "(i, m) \<in> set (groupby_mean rows)"
    then have "i \<in> obs_ID ` set rows" and m: "m = mean (map celsius (filter (\<lambda>r. obs_ID r = i) rows))"
      by (simp_all add: groupby_mean_mem)
    from group_nonempty[OF this(1)] m
    show "let vs = map celsius (filter (\<lambda>r. obs_ID r = i) rows)
          in vs \<noteq> [] \<and> m = Fin (sum_list vs / of_nat (length vs))"
      by (simp add: mean_def Let_def)
  qed
  have "fst ` set (groupby_mean rows) = set (map fst (groupby_mean rows))" by simp
  also have "\<dots> = obs_ID ` set rows" by (simp only: groupby_mean_keys) simp
  finally have c: "fst ` set (groupby_mean rows) = obs_ID ` set rows" .
  have d: "distinct (map fst (groupby_mean rows))" by (simp only: groupby_mean_keys) simp
  from b c d show ?thesis by blast
qed

lemma fold_fmax_Fin: "fold fmax (map Fin ys) (Fin y) = Fin (fold max ys y)"
  by (induction ys arbitrary: y) (simp_all add: max.commute)

lemma series_max_Fin: "xs \<noteq> [] \<Longrightarrow> series_max (map Fin xs) = Fin (Max (set xs))"
proof (cases xs)
  case Nil
  then show "xs \<noteq> [] \<Longrightarrow> ?thesis" by simp
next
  case (Cons y ys)
  have "filter (\<lambda>x. x \<noteq> NaN) (map Fin xs) = map Fin xs" by (induction xs) simp_all
  then have "series_max (map Fin xs) = fold fmax (map Fin ys) (Fin y)"
    using Cons by (simp add: series_max_def)
  also have "\<dots> = Fin (fold max ys y)" by (rule fold_fmax_Fin)
  also have "fold max ys y = Max (set (y # ys))" by (simp only: Max.set_eq_fold)
  finally show ?thesis using Cons by simp
qed

lemma series_max_Nil: "series_max [] = NaN"
  by (simp add: series_max_def)

lemma merge_on_ID_mem:
  "p \<in> set (merge_on_ID avg stations) \<Longrightarrow> (ID p, VALUE p) \<in> set avg \<and> SIZE p = NaN
     \<and> (ID p, LAT p, LON p) \<in> set stations"
  by (auto simp: merge_on_ID_def)

lemma normalize_Fin:
  assumes fin: "\<forall>p\<in>set rows. \<exists>q. VALUE p = Fin q" and ne: "rows \<noteq> []"
  shows "normalize rows =
         map (\<lambda>p. p\<lparr>SIZE := fmul (fdiv (Fin (abs_value p)) (Fin (Max (abs_value ` set rows)))) (Fin 15)\<rparr>) rows"
proof -
  have f: "fabs (VALUE p) = Fin (abs_value p)" if "p \<in> set rows" for p
    using fin that by (auto simp: abs_value_def)
  then have eq: "map (\<lambda>p. fabs (VALUE p)) rows = map Fin (map abs_value rows)" by simp
  have "series_max (map Fin (map abs_value rows)) = Fin (Max (set (map abs_value rows)))"
    using ne by (intro series_max_Fin) simp
  then have "series_max (map (\<lambda>p. fabs (VALUE p)) rows) = Fin (Max (abs_value ` set rows))"
    by (simp only: eq set_map)
  with f show ?thesis by (simp add: normalize_def Let_def)
qed

lemma normalize_props: "length (normalize rows) = length rows \<and> map VALUE (normalize rows) = map VALUE rows
   \<and> map ID (normalize rows) = map ID rows"
  by (simp add: normalize_def Let_def comp_def)

lemma process_Inr:
  "process stations data = Inr rows \<Longrightarrow>
   rows = normalize (merge_on_ID (groupby_mean (country_rows stations data)) stations)"
  by (auto simp: process_def Let_def split: sum.splits)

lemma joined_Fin:
  "p \<in> set (merge_on_ID (groupby_mean rows) stations) \<Longrightarrow> \<exists>q. VALUE p = Fin q"
  using merge_on_ID_mem groupby_mean_Fin by blast

text \<open>
  Claim C4. When the processing yields rows whose largest absolute mean \<open>M\<close> is positive,
  every row has the size \<open>|v| / M * 15\<close>, which lies between 0 and 15, and a row that
  attains \<open>M\<close> exists and has the size 15.
\<close>

theorem marker_size_formula:
  assumes pr: "process stations data = Inr rows"
    and mem: "p \<in> set rows"
    and M: "M = Max (abs_value ` set rows)"
    and pos: "0 < M"
  shows "(\<exists>v. VALUE p = Fin v \<and> abs_value p = \<bar>v\<bar>)
       \<and> SIZE p = Fin (abs_value p / M * 15)
       \<and> 0 \<le> abs_value p / M * 15 \<and> abs_value p / M * 15 \<le> 15
       \<and> (abs_value p = M \<longrightarrow> SIZE p = Fin 15)
       \<and> (\<exists>q\<in>set rows. abs_value q = M \<and> SIZE q = Fin 15)"
proof -
  let ?J = "merge_on_ID (groupby_mean (country_rows stations data)) stations"
  have rows: "rows = normalize ?J" using pr by (rule process_Inr)
  have fin: "\<forall>p\<in>set ?J. \<exists>q. VALUE p = Fin q" using joined_Fin by blast
  have ne: "?J \<noteq> []" using mem rows by (auto simp: normalize_def Let_def)
  have av: "abs_value (p\<lparr>SIZE := s\<rparr>) = abs_value p" for p s by (simp add: abs_value_def)
  have img: "abs_value ` set rows = abs_value ` set ?J"
    unfolding rows normalize_Fin[OF fin ne] by (auto simp: av image_iff)
  have M': "M = Max (abs_value ` set ?J)" using M img by simp
  have size: "\<exists>j\<in>set ?J. r = j\<lparr>SIZE := Fin (abs_value j / M * 15)\<rparr>" if "r \<in> set rows" for r
    using that pos unfolding rows normalize_Fin[OF fin ne] M' by auto
  have S: "SIZE r = Fin (abs_value r / M * 15)" and V: "\<exists>v. VALUE r = Fin v \<and> abs_value r = \<bar>v\<bar>"
    if "r \<in> set rows" for r
  proof -
    from size[OF that] obtain j where j: "j \<in> set ?J" "r = j\<lparr>SIZE := Fin (abs_value j / M * 15)\<rparr>" by blast
    then show "SIZE r = Fin (abs_value r / M * 15)" by (simp add: av)
    from fin j show "\<exists>v. VALUE r = Fin v \<and> abs_value r = \<bar>v\<bar>" by (auto simp: abs_value_def)
  qed
  have finite: "finite (abs_value ` set rows)" and nonempty: "abs_value ` set rows \<noteq> {}"
    using mem by auto
  have le: "abs_value r \<le> M" if "r \<in> set rows" for r
    using that finite unfolding M by simp
  have ge: "0 \<le> abs_value r" for r by (simp add: abs_value_def split: pyfloat.splits)
  have "M \<in> abs_value ` set rows" unfolding M using finite nonempty by (rule Max_in)
  then obtain q where q: "q \<in> set rows" "abs_value q = M" by auto
  have one: "abs_value r = M \<Longrightarrow> abs_value r / M * 15 = 15" for r using pos by simp
  have up: "abs_value p / M * 15 \<le> 15" using le[OF mem] pos by (simp add: pos_divide_le_eq)
  have lo: "0 \<le> abs_value p / M * 15" using ge[of p] pos by simp
  from S[OF mem] V[OF mem] up lo one q S[OF q(1)] show ?thesis by auto
qed

subsection \<open>Dates\<close>

lemma to_datetime_error: "to_datetime s = Inl e \<Longrightarrow> e = ValueError"
  by (auto simp: to_datetime_def Let_def split: if_splits)

lemma to_datetime_all_Inr:
  "(\<exists>ds. to_datetime_all ss = Inr ds) \<longleftrightarrow> (\<forall>s\<in>set ss. \<exists>d. to_datetime s = Inr d)"
  by (induction ss) (auto split: sum.splits)

lemma to_datetime_all_Inl:
  "s \<in> set ss \<Longrightarrow> to_datetime s = Inl e \<Longrightarrow> to_datetime_all ss = Inl ValueError"
proof (induction ss)
  case Nil
  then show ?case by simp
next
  case (Cons a ss)
  then show ?case
    by (auto split: sum.splits dest: to_datetime_error)
qed

lemma process_dates_ok:
  assumes "\<forall>r\<in>set (country_rows stations data). \<exists>d. to_datetime (obs_DATE r) = Inr d"
  shows "process stations data =
         Inr (normalize (merge_on_ID (groupby_mean (country_rows stations data)) stations))"
proof -
  from assms have "\<forall>s\<in>set (map obs_DATE (country_rows stations data)). \<exists>d. to_datetime s = Inr d"
    by auto
  then obtain ds where "to_datetime_all (map obs_DATE (country_rows stations data)) = Inr ds"
    using to_datetime_all_Inr by blast
  then show ?thesis by (simp add: process_def Let_def)
qed

lemma retained_strip [simp]: "retained ids (r\<lparr>obs_DATE := d\<rparr>) = retained ids r"
  by (simp add: retained_def)

lemma celsius_strip [simp]: "celsius (r\<lparr>obs_DATE := d\<rparr>) = celsius r"
  by (simp add: celsius_def)

lemma country_rows_strip:
  "map (\<lambda>r. r\<lparr>obs_DATE := []\<rparr>) (country_rows stations data) =
   country_rows stations (map (\<lambda>r. r\<lparr>obs_DATE := []\<rparr>) data)"
  by (simp add: country_rows_def filter_map comp_def)

lemma groupby_mean_strip:
  "groupby_mean (map (\<lambda>r. r\<lparr>obs_DATE := []\<rparr>) rows) = groupby_mean rows"
  by (simp add: groupby_mean_def filter_map comp_def)

lemma groupby_mean_same:
  assumes "same_but_dates data data'"
  shows "groupby_mean (country_rows stations data) = groupby_mean (country_rows stations data')"
proof -
  have "groupby_mean (country_rows stations data)
      = groupby_mean (country_rows stations (map (\<lambda>r. r\<lparr>obs_DATE := []\<rparr>) data))"
    by (simp only: country_rows_strip[symmetric] groupby_mean_strip)
  also have "\<dots> = groupby_mean (country_rows stations (map (\<lambda>r. r\<lparr>obs_DATE := []\<rparr>) data'))"
    using assms by (simp only: same_but_dates_def)
  also have "\<dots> = groupby_mean (country_rows stations data')"
    by (simp only: country_rows_strip[symmetric] groupby_mean_strip)
  finally show ?thesis .
qed

lemma urls_differ: "inventory_url \<noteq> ghcn_url year"
  by (simp add: inventory_url_def ghcn_url_def)

lemma process_same:
  assumes "same_but_dates data data'"
    and "\<forall>r\<in>set data. \<exists>d. to_datetime (obs_DATE r) = Inr d"
    and "\<forall>r\<in>set data'. \<exists>d. to_datetime (obs_DATE r) = Inr d"
  shows "process stations data = process stations data'"
proof -
  have "\<forall>r\<in>set (country_rows stations data). \<exists>d. to_datetime (obs_DATE r) = Inr d"
    using assms(2) by (simp add: country_rows_def)
  moreover have "\<forall>r\<in>set (country_rows stations data'). \<exists>d. to_datetime (obs_DATE r) = Inr d"
    using assms(3) by (simp add: country_rows_def)
  ultimately show ?thesis
    by (simp only: process_dates_ok groupby_mean_same[OF assms(1)])
qed

lemma try_body_cong:
  assumes "http w (ghcn_url year) = Response t (Some data)"
    and "w' = w\<lparr>http := (http w)(ghcn_url year := Response t (Some data'))\<rparr>"
    and "\<And>stations. process stations data = process stations data'"
  shows "snd (try_body w' year cc out) = snd (try_body w year cc out)
       \<and> files (fst (try_body w' year cc out)) = files (fst (try_body w year cc out))
       \<and> stdout (fst (try_body w' year cc out)) = stdout (fst (try_body w year cc out))
       \<and> requested (fst (try_body w' year cc out)) = requested (fst (try_body w year cc out))
       \<and> figures (fst (try_body w' year cc out)) = figures (fst (try_body w year cc out))"
  using assms urls_differ[of year]
  by (auto simp: try_body_def get_def print_def
      split: response.splits sum.splits option.splits if_splits)

text \<open>
  Claim C10. Two tables that differ only in their dates, all of which the date conversion
  accepts (days of the calendar within the range of the timestamps, or missing), give the
  same station averages and the same processed rows, and the two runs on worlds that differ
  only in that table return the same path, leave the same files and print the same messages.
\<close>

theorem averages_independent_of_dates:
  assumes same: "same_but_dates data data'"
    and ok: "\<forall>r\<in>set data. \<exists>d. to_datetime (obs_DATE r) = Inr d"
    and ok': "\<forall>r\<in>set data'. \<exists>d. to_datetime (obs_DATE r) = Inr d"
    and http: "http w (ghcn_url year) = Response t (Some data)"
    and w': "w' = w\<lparr>http := (http w)(ghcn_url year := Response t (Some data'))\<rparr>"
  shows "groupby_mean (country_rows stations data) = groupby_mean (country_rows stations data')
       \<and> process stations data = process stations data'
       \<and> fst (fetch_and_process_data w' year cc) = fst (fetch_and_process_data w year cc)
       \<and> files (snd (fetch_and_process_data w' year cc)) = files (snd (fetch_and_process_data w year cc))
       \<and> stdout (snd (fetch_and_process_data w' year cc)) = stdout (snd (fetch_and_process_data w year cc))"
proof -
  have p: "\<And>stations. process stations data = process stations data'"
    using same ok ok' by (rule process_same)
  note tb = try_body_cong[OF http w' p, of cc "output_name cc year"]
  have ex: "exists w' (output_name cc year) = exists w (output_name cc year)"
    by (simp add: w' exists_def)
  obtain a r where A: "try_body w year cc (output_name cc year) = (a, r)" by (cases "try_body w year cc (output_name cc year)")
  obtain a' r' where A': "try_body w' year cc (output_name cc year) = (a', r')" by (cases "try_body w' year cc (output_name cc year)")
  from tb A A' have rel: "r' = r" "files a' = files a" "stdout a' = stdout a" by simp_all
  have cached: "files (print m w') = files (print m w) \<and> stdout (print m w') = stdout (print m w)" for m
    by (simp add: print_def w')
  have "fst (fetch_and_process_data w' year cc) = fst (fetch_and_process_data w year cc)
       \<and> files (snd (fetch_and_process_data w' year cc)) = files (snd (fetch_and_process_data w year cc))
       \<and> stdout (snd (fetch_and_process_data w' year cc)) = stdout (snd (fetch_and_process_data w year cc))"
  proof (cases "exists w (output_name cc year)")
    case True
    with ex cached show ?thesis by (simp add: fetch_and_process_data_def)
  next
    case False
    show ?thesis
    proof (cases r)
      case (Inl e)
      with False ex A A' rel show ?thesis
        by (cases e) (simp_all add: fetch_and_process_data_def print_def)
    next
      case (Inr u)
      with False ex A A' rel show ?thesis
        by (simp add: fetch_and_process_data_def)
    qed
  qed
  with groupby_mean_same[OF same] p show ?thesis by blast
qed

subsection \<open>A run in which both requests succeed\<close>

lemma try_body_run:
  assumes "http w inventory_url = Response inventory_data tb"
    and "parse_stations cc inventory_data = Inr stations"
    and "http w (ghcn_url year) = Response t (Some data)"
  shows "try_body w year cc out =
     (case process stations data of
        Inl e \<Rightarrow> (print (Found (length stations) cc) (w\<lparr>requested := requested w @ [inventory_url]\<rparr>)
                    \<lparr>requested := requested w @ [inventory_url, ghcn_url year]\<rparr>, Inl e)
      | Inr rows \<Rightarrow>
          if writable w out
          then (print (Saved out)
            (print (Found (length stations) cc) (w\<lparr>requested := requested w @ [inventory_url]\<rparr>)
               \<lparr>requested := requested w @ [inventory_url, ghcn_url year],
                 files := (files w)(out \<mapsto> Csv rows)\<rparr>), Inr ())
          else (print (Found (length stations) cc) (w\<lparr>requested := requested w @ [inventory_url]\<rparr>)
                    \<lparr>requested := requested w @ [inventory_url, ghcn_url year]\<rparr>, Inl OSError))"
  using assms by (simp add: try_body_def get_def print_def split: sum.splits)

lemma joined_empty: "country_rows stations data = [] \<Longrightarrow>
   merge_on_ID (groupby_mean (country_rows stations data)) stations = []"
  by (simp add: groupby_mean_def merge_on_ID_def)

text \<open>
  Claim C1 as amended. The program has no check for an empty join or a zero divisor: when both
  requests succeed, the inventory is read and the dates of the retained rows convert, the run
  returns the path and writes the processed rows if the output file can be written, and
  returns \<open>None\<close> with the files unchanged if it cannot. The processed rows are no rows
  when no row is retained; every size is NaN when the largest absolute mean is zero; no size
  is ever infinite.
\<close>

theorem empty_join_writes_artifact:
  assumes miss: "\<not> exists w (output_name cc year)"
    and inv: "http w inventory_url = Response inventory_data tb"
    and st: "parse_stations cc inventory_data = Inr stations"
    and arch: "http w (ghcn_url year) = Response t (Some data)"
    and pr: "process stations data = Inr rows"
  shows "(writable w (output_name cc year) \<longrightarrow>
           fst (fetch_and_process_data w year cc) = Some (output_name cc year)
         \<and> files (snd (fetch_and_process_data w year cc)) = (files w)(output_name cc year \<mapsto> Csv rows))
       \<and> (\<not> writable w (output_name cc year) \<longrightarrow>
           fst (fetch_and_process_data w year cc) = None
         \<and> files (snd (fetch_and_process_data w year cc)) = files w)
       \<and> (country_rows stations data = [] \<longrightarrow> rows = [])
       \<and> (rows \<noteq> [] \<and> Max (abs_value ` set rows) = 0 \<longrightarrow> (\<forall>p\<in>set rows. SIZE p = NaN))
       \<and> (\<forall>p\<in>set rows. SIZE p \<noteq> PInf \<and> SIZE p \<noteq> NInf)"
proof -
  let ?J = "merge_on_ID (groupby_mean (country_rows stations data)) stations"
  have rows: "rows = normalize ?J" using pr by (rule process_Inr)
  have a: "writable w (output_name cc year) \<longrightarrow>
           fst (fetch_and_process_data w year cc) = Some (output_name cc year)
         \<and> files (snd (fetch_and_process_data w year cc)) = (files w)(output_name cc year \<mapsto> Csv rows)"
    using miss pr by (simp add: fetch_and_process_data_def Let_def try_body_run[OF inv st arch] print_def)
  have a': "\<not> writable w (output_name cc year) \<longrightarrow>
           fst (fetch_and_process_data w year cc) = None
         \<and> files (snd (fetch_and_process_data w year cc)) = files w"
    using miss pr by (simp add: fetch_and_process_data_def Let_def try_body_run[OF inv st arch] print_def)
  have b: "country_rows stations data = [] \<longrightarrow> rows = []"
    using rows joined_empty[of stations data] by (auto simp: normalize_def)
  have fin: "\<forall>p\<in>set ?J. \<exists>q. VALUE p = Fin q" using joined_Fin by blast
  have av: "abs_value (p\<lparr>SIZE := s\<rparr>) = abs_value p" for p s by (simp add: abs_value_def)
  have ge: "0 \<le> abs_value r" for r by (simp add: abs_value_def split: pyfloat.splits)
  have cd: "(Max (abs_value ` set rows) = 0 \<longrightarrow> SIZE p = NaN) \<and> SIZE p \<noteq> PInf \<and> SIZE p \<noteq> NInf"
    if mem: "p \<in> set rows" for p
  proof -
    from mem rows have ne: "?J \<noteq> []" by (auto simp: normalize_def Let_def)
    have img: "abs_value ` set rows = abs_value ` set ?J"
      unfolding rows normalize_Fin[OF fin ne] by (auto simp: av image_iff)
    let ?M = "Max (abs_value ` set rows)"
    from mem obtain j where j: "j \<in> set ?J"
      "p = j\<lparr>SIZE := fmul (fdiv (Fin (abs_value j)) (Fin ?M)) (Fin 15)\<rparr>"
      unfolding rows normalize_Fin[OF fin ne] img[unfolded rows normalize_Fin[OF fin ne]] by auto
    have "abs_value p \<le> ?M" using mem by simp
    then have le: "abs_value j \<le> ?M" using j(2) by (simp add: av)
    show ?thesis
    proof (cases "?M = 0")
      case True
      with le ge[of j] have "abs_value j = 0" by simp
      with True j(2) show ?thesis by simp
    next
      case False
      with j(2) show ?thesis by simp
    qed
  qed
  from a a' b cd show ?thesis by blast
qed


text \<open>
  Claim C3 as amended. A retained row whose date the conversion rejects ends the whole run:
  the processing yields \<open>ValueError\<close>, \<open>fetch_and_process_data\<close> returns \<open>None\<close>,
  no file is written and the processing error is printed.
\<close>

theorem malformed_date_aborts_run:
  assumes miss: "\<not> exists w (output_name cc year)"
    and inv: "http w inventory_url = Response inventory_data tb"
    and st: "parse_stations cc inventory_data = Inr stations"
    and arch: "http w (ghcn_url year) = Response t (Some data)"
    and row: "r \<in> set data" "retained (map fst stations) r"
    and bad: "to_datetime (obs_DATE r) = Inl e"
  shows "process stations data = Inl ValueError
       \<and> fst (fetch_and_process_data w year cc) = None
       \<and> files (snd (fetch_and_process_data w year cc)) = files w
       \<and> stdout (snd (fetch_and_process_data w year cc))
           = stdout w @ [Found (length stations) cc, ErrorProcessing ValueError]"
proof -
  from row have "obs_DATE r \<in> set (map obs_DATE (country_rows stations data))"
    by (simp add: country_rows_def)
  from to_datetime_all_Inl[OF this bad] have p: "process stations data = Inl ValueError"
    by (simp add: process_def Let_def)
  with miss show ?thesis
    by (simp add: fetch_and_process_data_def try_body_run[OF inv st arch] print_def)
qed

subsection \<open>The example inputs evaluated\<close>

lemmas float_eval = py_float_def strip_def is_space_def sign_of_def to_lower_def abs_float_def digitpart_def
  is_digit_def digit_val_def exponent_def mk_float_def pow10_def num_def less_eq_char_def slice_def

lemmas order_eval = less_eq_char_def less_char_def list_le_def list_less_def

lemma ex_lines: "splitlines ex_inventory =
   [''NO000102000  59.9000   10.7200'', ''SE000000001  59.3300   18.0600'', ''NO000102001  60.3900    5.3200'']"
  by (simp add: ex_inventory_def splitlines_def is_linebreak_def)

lemma ex_parse: "parse_stations ''NO'' ex_inventory = Inr ex_stations"
  by (simp add: parse_stations_def ex_lines ex_stations_def float_eval)

lemma ex_country_rows: "country_rows ex_stations ex_data =
   [mk_row ''NO000102001'' ''20200101'' ''TMIN'' (- 110),
    mk_row ''NO000102000'' ''20200101'' ''TMAX'' 210,
    mk_row ''NO000102000'' ''20200102'' ''TMAX'' 230]"
  by (simp add: country_rows_def ex_stations_def ex_data_def retained_def mk_row_def)

lemma ex_groupby: "groupby_mean (country_rows ex_stations ex_data) =
   [(''NO000102000'', Fin 22), (''NO000102001'', Fin (- 11))]"
  by (simp add: ex_country_rows groupby_mean_def mk_row_def mean_def celsius_def order_eval)

lemma ex_dates: "\<forall>r\<in>set ex_data. \<exists>d. to_datetime (obs_DATE r) = Inr d"
  by (simp add: ex_data_def mk_row_def to_datetime_def nat_strings_def is_digit_def less_eq_char_def
      digit_val_def num_def slice_def days_in_month_def leap_def in_bounds_def)

lemma ex_process: "process ex_stations ex_data = Inr ex_rows"
proof -
  have "\<forall>r\<in>set (country_rows ex_stations ex_data). \<exists>d. to_datetime (obs_DATE r) = Inr d"
    using ex_dates by (simp add: country_rows_def)
  then show ?thesis
    by (simp add: process_dates_ok ex_groupby)
       (simp add: merge_on_ID_def ex_stations_def normalize_def series_max_def Let_def ex_rows_def)
qed

lemma ex_output_name: "output_name ''NO'' 2020 = ''NO_temperature_2020_processed.csv''"
  by (simp add: output_name_def str_int_def str_nat.simps digit_char_def)

lemma ex_http:
  "http (ex_world inventory data) inventory_url = Response inventory None"
  "http (ex_world inventory data) (ghcn_url 2020) = Response [] (Some data)"
  using urls_differ[of 2020] by (auto simp add: ex_world_def)

lemma ex_miss: "\<not> exists (ex_world inventory data) p"
  by (simp add: exists_def ex_world_def)

lemma ex_writable: "writable (ex_world inventory data) p"
  by (simp add: ex_world_def)

lemma fetch_run:
  assumes "\<not> exists w (output_name cc year)"
    and "http w inventory_url = Response inventory_data tb"
    and "parse_stations cc inventory_data = Inr stations"
    and "http w (ghcn_url year) = Response t (Some data)"
    and "writable w (output_name cc year)"
  shows "fst (fetch_and_process_data w year cc) =
           (case process stations data of Inl e \<Rightarrow> None | Inr rows \<Rightarrow> Some (output_name cc year))
       \<and> files (snd (fetch_and_process_data w year cc)) =
           (case process stations data of Inl e \<Rightarrow> files w
            | Inr rows \<Rightarrow> (files w)(output_name cc year \<mapsto> Csv rows))"
proof (cases "process stations data")
  case (Inl e)
  with assms(1,5) show ?thesis
    by (cases e) (simp_all add: fetch_and_process_data_def Let_def try_body_run[OF assms(2-4)] print_def)
next
  case (Inr rows)
  with assms(1,5) show ?thesis
    by (simp add: fetch_and_process_data_def Let_def try_body_run[OF assms(2-4)] print_def)
qed

lemma se_country_rows: "country_rows ex_stations se_data = []"
  by (simp add: country_rows_def ex_stations_def se_data_def retained_def mk_row_def)

lemma se_process: "process ex_stations se_data = Inr []"
  by (simp add: process_def se_country_rows groupby_mean_def merge_on_ID_def normalize_def)

text \<open>
  Claim C1 fails as stated: on a table without any retained row of a Norwegian station, in a
  directory that can be written, the run raises nothing, returns the path and writes a file
  with no data rows.
\<close>

theorem empty_join_counterexample:
  "country_rows ex_stations se_data = []
   \<and> fst (fetch_and_process_data (ex_world ex_inventory se_data) 2020 ''NO'')
       = Some ''NO_temperature_2020_processed.csv''
   \<and> files (snd (fetch_and_process_data (ex_world ex_inventory se_data) 2020 ''NO''))
       ''NO_temperature_2020_processed.csv'' = Some (Csv [])"
  using fetch_run[where w = "ex_world ex_inventory se_data" and cc = "''NO''" and year = 2020, OF ex_miss ex_http(1) ex_parse ex_http(2) ex_writable]
  by (simp add: se_country_rows se_process ex_output_name)

lemmas date_eval = mk_row_def to_datetime_def nat_strings_def is_digit_def less_eq_char_def
      digit_val_def num_def slice_def days_in_month_def leap_def in_bounds_def

lemma zero_process: "process ex_stations zero_data = Inr zero_rows"
  by (simp add: process_def country_rows_def ex_stations_def zero_data_def retained_def date_eval
      groupby_mean_def mean_def celsius_def merge_on_ID_def normalize_def series_max_def Let_def
      zero_rows_def)

text \<open>
  Claim C1 as amended, on a station whose only observation is zero: the file is written and
  its single row has the size NaN; where the file cannot be written, the same run returns
  \<open>None\<close> and leaves no file.
\<close>

theorem empty_join_writes_artifact_witness:
  "\<not> exists (ex_world ex_inventory zero_data) (output_name ''NO'' 2020)
   \<and> http (ex_world ex_inventory zero_data) inventory_url = Response ex_inventory None
   \<and> parse_stations ''NO'' ex_inventory = Inr ex_stations
   \<and> http (ex_world ex_inventory zero_data) (ghcn_url 2020) = Response [] (Some zero_data)
   \<and> process ex_stations zero_data = Inr zero_rows
   \<and> writable (ex_world ex_inventory zero_data) (output_name ''NO'' 2020)
   \<and> fst (fetch_and_process_data (ex_world ex_inventory zero_data) 2020 ''NO'')
       = Some ''NO_temperature_2020_processed.csv''
   \<and> files (snd (fetch_and_process_data (ex_world ex_inventory zero_data) 2020 ''NO''))
       ''NO_temperature_2020_processed.csv'' = Some (Csv zero_rows)
   \<and> zero_rows \<noteq> [] \<and> Max (abs_value ` set zero_rows) = 0
   \<and> map SIZE zero_rows = [NaN]
   \<and> \<not> writable ((ex_world ex_inventory zero_data)\<lparr>writable := (\<lambda>_. False)\<rparr>) (output_name ''NO'' 2020)
   \<and> fst (fetch_and_process_data ((ex_world ex_inventory zero_data)\<lparr>writable := (\<lambda>_. False)\<rparr>) 2020 ''NO'')
       = None
   \<and> files (snd (fetch_and_process_data ((ex_world ex_inventory zero_data)\<lparr>writable := (\<lambda>_. False)\<rparr>)
        2020 ''NO'')) ''NO_temperature_2020_processed.csv'' = None"
proof -
  let ?w = "ex_world ex_inventory zero_data"
  let ?u = "?w\<lparr>writable := (\<lambda>_. False)\<rparr>"
  have m: "zero_rows \<noteq> [] \<and> Max (abs_value ` set zero_rows) = 0"
    by (simp add: zero_rows_def abs_value_def)
  have wr: "writable ?w (output_name ''NO'' 2020)" by (rule ex_writable)
  note t = empty_join_writes_artifact[where w = ?w and cc = "''NO''" and year = 2020,
      OF ex_miss ex_http(1) ex_parse ex_http(2) zero_process]
  from t wr m
  have "\<forall>p\<in>set zero_rows. SIZE p = NaN"
    and r1: "fst (fetch_and_process_data ?w 2020 ''NO'') = Some ''NO_temperature_2020_processed.csv''"
    and r2: "files (snd (fetch_and_process_data ?w 2020 ''NO''))
           ''NO_temperature_2020_processed.csv'' = Some (Csv zero_rows)"
    by (simp_all add: ex_output_name)
  then have r3: "map SIZE zero_rows = [NaN]" by (simp add: zero_rows_def)
  have um: "\<not> exists ?u (output_name ''NO'' 2020)" by (simp add: exists_def ex_world_def)
  have ui: "http ?u inventory_url = Response ex_inventory None" by (simp add: ex_http(1))
  have ua: "http ?u (ghcn_url 2020) = Response [] (Some zero_data)" by (simp add: ex_http(2))
  have uw: "\<not> writable ?u (output_name ''NO'' 2020)" by simp
  note t' = empty_join_writes_artifact[where w = ?u and cc = "''NO''" and year = 2020,
      OF um ui ex_parse ua zero_process]
  from t' uw have r4: "fst (fetch_and_process_data ?u 2020 ''NO'') = None"
    and "files (snd (fetch_and_process_data ?u 2020 ''NO'')) = files ?u"
    by blast+
  then have r5: "files (snd (fetch_and_process_data ?u 2020 ''NO''))
      ''NO_temperature_2020_processed.csv'' = None"
    by (simp add: ex_world_def)
  from m wr r1 r2 r3 uw r4 r5 ex_miss[of ex_inventory zero_data] ex_http[of ex_inventory zero_data]
    ex_parse zero_process
  show ?thesis by simp
qed







lemma bad_date: "to_datetime ''2020-01-01'' = Inl ValueError"
  by (simp add: date_eval)

lemma good_date: "to_datetime ''20200102'' = Inr (Some (2020, 1, 2))"
  by (simp add: date_eval)

text \<open>
  The first and the last day the conversion accepts, and their neighbours.
\<close>

lemma date_bounds:
  "to_datetime ''16770921'' = Inl ValueError"
  "to_datetime ''16770922'' = Inr (Some (1677, 9, 22))"
  "to_datetime ''22620411'' = Inr (Some (2262, 4, 11))"
  "to_datetime ''22620412'' = Inl ValueError"
  "to_datetime ''99991231'' = Inl ValueError"
  by (simp_all add: date_eval)

lemma bad_date_retained:
  "retained (map fst ex_stations) (mk_row ''NO000102000'' ''2020-01-01'' ''TMAX'' 210)"
  "retained (map fst ex_stations) (mk_row ''NO000102000'' ''20200102'' ''TMAX'' 230)"
  by (simp_all add: retained_def ex_stations_def mk_row_def)

lemma bad_date_process: "process ex_stations bad_date_data = Inl ValueError"
  by (simp add: process_def country_rows_def bad_date_data_def bad_date_retained)
     (simp add: mk_row_def bad_date)

text \<open>
  Claim C3 fails as stated: of two retained rows of one station, one with the date
  \<open>2020-01-01\<close> and one with a well-formed date, neither is aggregated; the processing
  raises \<open>ValueError\<close>, the run returns \<open>None\<close> and writes nothing.
\<close>

theorem malformed_date_counterexample:
  "retained (map fst ex_stations) (mk_row ''NO000102000'' ''2020-01-01'' ''TMAX'' 210)
   \<and> retained (map fst ex_stations) (mk_row ''NO000102000'' ''20200102'' ''TMAX'' 230)
   \<and> to_datetime ''2020-01-01'' = Inl ValueError
   \<and> to_datetime ''20200102'' = Inr (Some (2020, 1, 2))
   \<and> process ex_stations bad_date_data = Inl ValueError
   \<and> fst (fetch_and_process_data (ex_world ex_inventory bad_date_data) 2020 ''NO'') = None
   \<and> files (snd (fetch_and_process_data (ex_world ex_inventory bad_date_data) 2020 ''NO''))
        ''NO_temperature_2020_processed.csv'' = None"
  using fetch_run[where w = "ex_world ex_inventory bad_date_data" and cc = "''NO''" and year = 2020,
      OF ex_miss ex_http(1) ex_parse ex_http(2) ex_writable]
    bad_date_retained bad_date good_date
  by (simp add: bad_date_process) (simp add: ex_world_def)

text \<open>
  Claim C3 as amended, on the table of the counterexample.
\<close>

theorem malformed_date_aborts_run_witness:
  "\<not> exists (ex_world ex_inventory bad_date_data) (output_name ''NO'' 2020)
   \<and> http (ex_world ex_inventory bad_date_data) inventory_url = Response ex_inventory None
   \<and> parse_stations ''NO'' ex_inventory = Inr ex_stations
   \<and> http (ex_world ex_inventory bad_date_data) (ghcn_url 2020) = Response [] (Some bad_date_data)
   \<and> mk_row ''NO000102000'' ''2020-01-01'' ''TMAX'' 210 \<in> set bad_date_data
   \<and> retained (map fst ex_stations) (mk_row ''NO000102000'' ''2020-01-01'' ''TMAX'' 210)
   \<and> to_datetime (obs_DATE (mk_row ''NO000102000'' ''2020-01-01'' ''TMAX'' 210)) = Inl ValueError
   \<and> process ex_stations bad_date_data = Inl ValueError
   \<and> fst (fetch_and_process_data (ex_world ex_inventory bad_date_data) 2020 ''NO'') = None
   \<and> files (snd (fetch_and_process_data (ex_world ex_inventory bad_date_data) 2020 ''NO'')) = Map.empty"
proof -
  have r: "mk_row ''NO000102000'' ''2020-01-01'' ''TMAX'' 210 \<in> set bad_date_data"
    by (simp add: bad_date_data_def)
  have d: "to_datetime (obs_DATE (mk_row ''NO000102000'' ''2020-01-01'' ''TMAX'' 210)) = Inl ValueError"
    by (simp add: mk_row_def bad_date)
  from malformed_date_aborts_run[where w = "ex_world ex_inventory bad_date_data" and cc = "''NO''" and year = 2020, OF ex_miss ex_http(1) ex_parse ex_http(2) r bad_date_retained(1) d]
    ex_miss[of ex_inventory bad_date_data] ex_http[of ex_inventory bad_date_data] ex_parse r
    bad_date_retained(1) d
  show ?thesis by (simp add: ex_world_def)
qed

text \<open>
  Claim C8. When the output file of the country and year already exists,
  \<open>fetch_and_process_data\<close> returns its path and does nothing else: no URL is requested,
  no file is written, only the notice is printed. Hence a run that returned a path is followed
  by a run that returns the same path and leaves every file and the request log as they were.
\<close>

theorem cache_gate_skips_pipeline:
  "(exists w (output_name cc year) \<longrightarrow>
      fetch_and_process_data w year cc = (Some (output_name cc year), print (Skipping cc year) w)
      \<and> files (snd (fetch_and_process_data w year cc)) = files w
      \<and> requested (snd (fetch_and_process_data w year cc)) = requested w
      \<and> figures (snd (fetch_and_process_data w year cc)) = figures w)
   \<and> (\<forall>p w'. fetch_and_process_data w year cc = (Some p, w') \<longrightarrow>
        fst (fetch_and_process_data w' year cc) = Some p
      \<and> files (snd (fetch_and_process_data w' year cc)) = files w'
      \<and> requested (snd (fetch_and_process_data w' year cc)) = requested w')"
proof -
  have a: "exists w (output_name cc year) \<longrightarrow>
      fetch_and_process_data w year cc = (Some (output_name cc year), print (Skipping cc year) w)
      \<and> files (snd (fetch_and_process_data w year cc)) = files w
      \<and> requested (snd (fetch_and_process_data w year cc)) = requested w
      \<and> figures (snd (fetch_and_process_data w year cc)) = figures w"
    by (simp add: fetch_cached print_def)
  have b: "fst (fetch_and_process_data w' year cc) = Some p
      \<and> files (snd (fetch_and_process_data w' year cc)) = files w'
      \<and> requested (snd (fetch_and_process_data w' year cc)) = requested w'"
    if "fetch_and_process_data w year cc = (Some p, w')" for p w'
    using fetch_Some[OF that] by (clarsimp simp: fetch_cached print_def)
  from a b show ?thesis by blast
qed

text \<open>
  Claim C8 on two concrete runs: one on a directory that already holds the file, with a network
  that would fail, and a second run after a first successful one.
\<close>

theorem cache_gate_skips_pipeline_witness:
  "exists cached_world (output_name ''NO'' 2020)
   \<and> fst (fetch_and_process_data cached_world 2020 ''NO'') = Some ''NO_temperature_2020_processed.csv''
   \<and> files (snd (fetch_and_process_data cached_world 2020 ''NO'')) = files cached_world
   \<and> requested (snd (fetch_and_process_data cached_world 2020 ''NO'')) = []
   \<and> fst (fetch_and_process_data (ex_world ex_inventory ex_data) 2020 ''NO'')
        = Some ''NO_temperature_2020_processed.csv''
   \<and> fst (fetch_and_process_data (snd (fetch_and_process_data (ex_world ex_inventory ex_data) 2020 ''NO'')) 2020 ''NO'')
        = Some ''NO_temperature_2020_processed.csv''
   \<and> requested (snd (fetch_and_process_data (snd (fetch_and_process_data (ex_world ex_inventory ex_data) 2020 ''NO'')) 2020 ''NO''))
        = [inventory_url, ghcn_url 2020]"
proof -
  have h: "exists cached_world (output_name ''NO'' 2020)"
    by (simp add: exists_def cached_world_def ex_output_name)
  have r: "requested cached_world = []" by (simp add: cached_world_def)
  note t = cache_gate_skips_pipeline[where w = cached_world and cc = "''NO''" and year = 2020]
  note u = cache_gate_skips_pipeline[where w = "ex_world ex_inventory ex_data" and cc = "''NO''" and year = 2020]
  let ?run = "fetch_and_process_data (ex_world ex_inventory ex_data) 2020 ''NO''"
  have first: "fst ?run = Some ''NO_temperature_2020_processed.csv''"
    using fetch_run[where w = "ex_world ex_inventory ex_data" and cc = "''NO''" and year = 2020,
        OF ex_miss ex_http(1) ex_parse ex_http(2) ex_writable]
    by (simp add: ex_process ex_output_name)
  have req: "requested (snd ?run) = [inventory_url, ghcn_url 2020]"
    using ex_miss[of ex_inventory ex_data "output_name ''NO'' 2020"]
    by (simp add: fetch_and_process_data_def Let_def
        try_body_run[OF ex_http(1) ex_parse ex_http(2)] ex_process ex_writable print_def)
       (simp add: ex_world_def)
  from first have eq: "?run = (Some ''NO_temperature_2020_processed.csv'', snd ?run)"
    by (cases ?run) simp
  from u eq have second:
    "fst (fetch_and_process_data (snd ?run) 2020 ''NO'') = Some ''NO_temperature_2020_processed.csv''
     \<and> requested (snd (fetch_and_process_data (snd ?run) 2020 ''NO'')) = requested (snd ?run)"
    by blast
  from t h r first second req show ?thesis by (simp add: ex_output_name print_def)
qed

text \<open>
  Claim C9 on a run with no network at all.
\<close>

theorem fetch_failure_no_artifact_witness:
  "\<not> exists offline_world (output_name ''NO'' 2020)
   \<and> http offline_world inventory_url = Failed
   \<and> fst (fetch_and_process_data offline_world 2020 ''NO'') = None
   \<and> files (snd (fetch_and_process_data offline_world 2020 ''NO'')) = Map.empty
   \<and> figures (main offline_world 2020 ''NO'') = []"
proof -
  have h1: "\<not> exists offline_world (output_name ''NO'' 2020)"
    by (simp add: exists_def offline_world_def)
  have h2: "http offline_world inventory_url = Failed" by (simp add: offline_world_def)
  then have h2': "http offline_world inventory_url = Failed \<or> http offline_world (ghcn_url 2020) = Failed"
    by simp
  from fetch_failure_no_artifact[OF h1 h2']
  have c: "fst (fetch_and_process_data offline_world 2020 ''NO'') = None"
    "files (snd (fetch_and_process_data offline_world 2020 ''NO'')) = files offline_world"
    "figures (main offline_world 2020 ''NO'') = figures offline_world"
    by blast+
  have e: "files offline_world = Map.empty" "figures offline_world = []"
    by (simp_all add: offline_world_def)
  from h1 h2 c e show ?thesis by simp
qed

text \<open>
  Claim C7 on an inventory of two Norwegian stations with a Swedish one between them.
\<close>

theorem stations_match_country_in_order_witness:
  "parse_stations ''NO'' ex_inventory = Inr ex_stations
   \<and> map (\<lambda>s. take 2 (fst s)) ex_stations = [''NO'', ''NO'']
   \<and> map fst ex_stations = [''NO000102000'', ''NO000102001'']
   \<and> ex_stations = map station_of_line
       [''NO000102000  59.9000   10.7200'', ''NO000102001  60.3900    5.3200'']"
proof -
  from stations_match_country_in_order[OF ex_parse]
  have a: "\<forall>s\<in>set ex_stations. take 2 (fst s) = ''NO''"
    and b: "ex_stations = map station_of_line (filter (\<lambda>l. take 2 l = ''NO'') (splitlines ex_inventory))"
    by blast+
  have c: "filter (\<lambda>l. take 2 l = ''NO'') (splitlines ex_inventory) =
       [''NO000102000  59.9000   10.7200'', ''NO000102001  60.3900    5.3200'']"
    by (simp add: ex_lines)
  have d: "map fst ex_stations = [''NO000102000'', ''NO000102001'']"
    by (simp add: ex_stations_def)
  from a have e: "map (\<lambda>s. take 2 (fst s)) ex_stations = [''NO'', ''NO'']"
    by (simp add: ex_stations_def)
  from ex_parse e d b[unfolded c] show ?thesis by blast
qed

text \<open>
  Claim C6 on the example table, whose Swedish row is not retained.
\<close>

theorem filter_keeps_only_requested_witness:
  "country_rows ex_stations ex_data \<noteq> []
   \<and> map obs_ELEMENT (country_rows ex_stations ex_data) = [''TMIN'', ''TMAX'', ''TMAX'']
   \<and> map obs_ID (country_rows ex_stations ex_data) = [''NO000102001'', ''NO000102000'', ''NO000102000'']
   \<and> \<not> retained (map fst ex_stations) (mk_row ''SE000000001'' ''20200101'' ''TMAX'' 50)
   \<and> process ex_stations ex_data =
       process ex_stations
         [mk_row ''NO000102001'' ''20200101'' ''TMIN'' (- 110),
          mk_row ''NO000102000'' ''20200101'' ''TMAX'' 210,
          mk_row ''NO000102000'' ''20200101'' ''PRCP'' 12,
          mk_row ''NO000102000'' ''20200102'' ''TMAX'' 230]"
proof -
  let ?xs = "[mk_row ''NO000102001'' ''20200101'' ''TMIN'' (- 110),
              mk_row ''NO000102000'' ''20200101'' ''TMAX'' 210]"
  let ?r = "mk_row ''SE000000001'' ''20200101'' ''TMAX'' 50"
  let ?ys = "[mk_row ''NO000102000'' ''20200101'' ''PRCP'' 12,
              mk_row ''NO000102000'' ''20200102'' ''TMAX'' 230]"
  have d: "ex_data = ?xs @ ?r # ?ys" by (simp add: ex_data_def)
  have n: "\<not> retained (map fst ex_stations) ?r"
    by (simp add: retained_def ex_stations_def mk_row_def)
  have ne: "country_rows ex_stations ex_data \<noteq> []" by (simp add: ex_country_rows)
  from filter_keeps_only_requested[of ex_stations ex_data] d n
  have "process ex_stations ex_data = process ex_stations (?xs @ ?ys)" by blast
  moreover have "map obs_ELEMENT (country_rows ex_stations ex_data) = [''TMIN'', ''TMAX'', ''TMAX'']"
    and "map obs_ID (country_rows ex_stations ex_data) = [''NO000102001'', ''NO000102000'', ''NO000102000'']"
    by (simp_all add: ex_country_rows mk_row_def)
  ultimately show ?thesis using n ne by simp
qed

lemma size_process: "process size_stations size_data = Inr [size_p1, size_p2, size_p3]"
  by (simp add: process_def country_rows_def size_stations_def size_data_def retained_def date_eval
      groupby_mean_def mean_def celsius_def order_eval merge_on_ID_def normalize_def series_max_def
      Let_def size_p1_def size_p2_def size_p3_def)

lemma size_max: "Max (abs_value ` set [size_p1, size_p2, size_p3]) = 4"
  by (simp add: abs_value_def size_p1_def size_p2_def size_p3_def)

text \<open>
  Claim C4 on absolute means 1, 2 and 4: the sizes are 3.75, 7.5 and 15.
\<close>

theorem marker_size_formula_witness:
  "process size_stations size_data = Inr [size_p1, size_p2, size_p3]
   \<and> size_p1 \<in> set [size_p1, size_p2, size_p3]
   \<and> 0 < Max (abs_value ` set [size_p1, size_p2, size_p3])
   \<and> abs_value size_p1 = 1 \<and> abs_value size_p2 = 2 \<and> abs_value size_p3 = 4
   \<and> SIZE size_p1 = Fin (15 / 4) \<and> SIZE size_p2 = Fin (15 / 2) \<and> SIZE size_p3 = Fin 15"
proof -
  have pos: "(0::rat) < 4" by simp
  have a: "abs_value size_p1 = 1" "abs_value size_p2 = 2" "abs_value size_p3 = 4"
    by (simp_all add: abs_value_def size_p1_def size_p2_def size_p3_def)
  have "SIZE size_p1 = Fin (abs_value size_p1 / 4 * 15)"
    using marker_size_formula[OF size_process _ size_max[symmetric] pos, of size_p1] by simp
  moreover have "SIZE size_p2 = Fin (abs_value size_p2 / 4 * 15)"
    using marker_size_formula[OF size_process _ size_max[symmetric] pos, of size_p2] by simp
  moreover have "SIZE size_p3 = Fin (abs_value size_p3 / 4 * 15)"
    using marker_size_formula[OF size_process _ size_max[symmetric] pos, of size_p3] by simp
  ultimately show ?thesis using a size_process size_max by simp
qed

lemma redated_same: "same_but_dates ex_data redated_data"
  by (simp add: same_but_dates_def ex_data_def redated_data_def mk_row_def)

lemma redated_dates: "\<forall>r\<in>set redated_data. \<exists>d. to_datetime (obs_DATE r) = Inr d"
  by (simp add: redated_data_def date_eval)

text \<open>
  Claim C10 on the example table and a copy with other dates.
\<close>

theorem averages_independent_of_dates_witness:
  "same_but_dates ex_data redated_data
   \<and> map (\<lambda>r. to_datetime (obs_DATE r)) redated_data
       = [Inr (Some (2020, 6, 15)), Inr (Some (2020, 12, 31)), Inr (Some (2020, 2, 29)),
          Inr (Some (2020, 1, 1)), Inr (Some (2262, 4, 11))]
   \<and> http (ex_world ex_inventory ex_data) (ghcn_url 2020) = Response [] (Some ex_data)
   \<and> groupby_mean (country_rows ex_stations redated_data)
       = [(''NO000102000'', Fin 22), (''NO000102001'', Fin (- 11))]
   \<and> process ex_stations redated_data = Inr ex_rows
   \<and> fst (fetch_and_process_data
        ((ex_world ex_inventory ex_data)
           \<lparr>http := (http (ex_world ex_inventory ex_data))(ghcn_url 2020 := Response [] (Some redated_data))\<rparr>)
        2020 ''NO'') = Some ''NO_temperature_2020_processed.csv''"
proof -
  let ?w = "ex_world ex_inventory ex_data"
  have first: "fst (fetch_and_process_data ?w 2020 ''NO'') = Some ''NO_temperature_2020_processed.csv''"
    using fetch_run[where w = ?w and cc = "''NO''" and year = 2020,
        OF ex_miss ex_http(1) ex_parse ex_http(2) ex_writable]
    by (simp add: ex_process ex_output_name)
  from averages_independent_of_dates[where stations = ex_stations and cc = "''NO''",
      OF redated_same ex_dates redated_dates ex_http(2) refl]
    redated_same ex_http(2)[of ex_inventory ex_data] ex_groupby ex_process first
  have "same_but_dates ex_data redated_data
   \<and> http (ex_world ex_inventory ex_data) (ghcn_url 2020) = Response [] (Some ex_data)
   \<and> groupby_mean (country_rows ex_stations redated_data)
       = [(''NO000102000'', Fin 22), (''NO000102001'', Fin (- 11))]
   \<and> process ex_stations redated_data = Inr ex_rows
   \<and> fst (fetch_and_process_data
        ((ex_world ex_inventory ex_data)
           \<lparr>http := (http (ex_world ex_inventory ex_data))(ghcn_url 2020 := Response [] (Some redated_data))\<rparr>)
        2020 ''NO'') = Some ''NO_temperature_2020_processed.csv''"
    by simp
  moreover have "map (\<lambda>r. to_datetime (obs_DATE r)) redated_data
       = [Inr (Some (2020, 6, 15)), Inr (Some (2020, 12, 31)), Inr (Some (2020, 2, 29)),
          Inr (Some (2020, 1, 1)), Inr (Some (2262, 4, 11))]"
    by (simp add: redated_data_def date_eval)
  ultimately show ?thesis by blast
qed

end
